theory Spec2Isabelle
  imports Main "HOL-Library.Word"
begin

unbundle bit_operations_syntax

section \<open>Low frequency tag operations (armsrc/lfops.c)\<close>

text \<open>
  The firmware routines of \<^verbatim>\<open>lfops.c\<close> drive the antenna through the FPGA and a few
  GPIO pins. Every call of a driver primitive is recorded as an event; an operation is
  modelled by the list of events it performs, in program order. C integers are words of
  their declared width (\<^verbatim>\<open>uint8_t\<close> is \<open>8 word\<close>, \<^verbatim>\<open>uint32_t\<close> is \<open>32 word\<close>).
  Microsecond and millisecond arguments of the delay primitives are recorded as \<open>int\<close>.
\<close>

type_synonym u8 = "8 word"
type_synonym u16 = "16 word"
type_synonym u32 = "32 word"
type_synonym u64 = "64 word"

subsection \<open>Driver events\<close>

text \<open>
  The major modes written with \<^verbatim>\<open>FpgaWriteConfWord\<close> in this file:
  \<^verbatim>\<open>FPGA_MAJOR_MODE_OFF\<close>, \<^verbatim>\<open>FPGA_MAJOR_MODE_LF_ADC | FPGA_LF_ADC_READER_FIELD\<close>,
  \<^verbatim>\<open>FPGA_MAJOR_MODE_LF_PASSTHRU\<close> and \<^verbatim>\<open>FPGA_MAJOR_MODE_LF_EDGE_DETECT\<close>;
  \<open>MAJOR_MODE_LF_ADC\<close> is the ADC mode without the reader field.
\<close>

datatype fpga_mode =
    MAJOR_MODE_OFF
  | MAJOR_MODE_LF_ADC_READER_FIELD
  | MAJOR_MODE_LF_ADC
  | MAJOR_MODE_LF_PASSTHRU
  | MAJOR_MODE_LF_EDGE_DETECT

datatype led = LED_A | LED_B | LED_D

datatype hw_event =
    FpgaDownloadAndGo
  | FpgaWriteConfWord fpga_mode
  | FpgaSendCommand_SET_DIVISOR int
  | LFSetupFPGAForADC int bool
  | SetAdcMuxFor_LOPKD
  | FpgaSetupSsc
  | StartTicks
  | WaitUS int
  | WaitMS int
  | SpinDelay int
  | SpinDelayUs int
  | BigBuf_Clear_keep_EM
  | BigBuf_Clear_ext bool
  | DoAcquisition_default
  | DoAcquisition_config bool int
  | DoPartialAcquisition int bool int int
  | doCotagAcquisition int
  | doCotagAcquisitionManchester
  | AcquireTiType_capture
  | SSC_DOUT bool
  | LED led bool
  | DbpString string
  | cmd_send_ACK

text \<open>
  The FPGA major mode after a run of events. \<^verbatim>\<open>FpgaWriteConfWord\<close> sets it.

  Modelled from the spec: \<^verbatim>\<open>LFSetupFPGAForADC(divisor, lf_field)\<close> is defined in
  \<^verbatim>\<open>lfsampling.c\<close>, which is not among the sources. The antenna driver interface
  describes it as \<^verbatim>\<open>setDivisor(v)\<close> followed by \<^verbatim>\<open>fieldOn(driveReaderField)\<close>, and every
  call site here comments it as "power on" or "to power up the tag": it leaves the FPGA
  in the ADC mode, with the reader field driven exactly when \<^verbatim>\<open>lf_field\<close> is set.
  All other events leave the major mode as it is.
\<close>

fun mode_step :: "fpga_mode \<Rightarrow> hw_event \<Rightarrow> fpga_mode" where
  "mode_step m (FpgaWriteConfWord m') = m'"
| "mode_step m (LFSetupFPGAForADC d lf_field) =
     (if lf_field then MAJOR_MODE_LF_ADC_READER_FIELD else MAJOR_MODE_LF_ADC)"
| "mode_step m _ = m"

definition mode_after :: "fpga_mode \<Rightarrow> hw_event list \<Rightarrow> fpga_mode" where
  "mode_after m evs = foldl mode_step m evs"

text \<open>The reader field is driven in exactly one of the modes used here.\<close>

definition field_on :: "fpga_mode \<Rightarrow> bool" where
  "field_on m = (m = MAJOR_MODE_LF_ADC_READER_FIELD)"

text \<open>Whether the reader field is driven at some point during a run of events.\<close>

fun field_ever_on :: "fpga_mode \<Rightarrow> hw_event list \<Rightarrow> bool" where
  "field_ever_on m [] = field_on m"
| "field_ever_on m (e # evs) = (field_on m \<or> field_ever_on (mode_step m e) evs)"

text \<open>
  The microseconds a run of events spends in \<^verbatim>\<open>WaitUS\<close> while the major mode
  satisfies \<open>P\<close>.
\<close>

fun wait_us_while :: "(fpga_mode \<Rightarrow> bool) \<Rightarrow> fpga_mode \<Rightarrow> hw_event list \<Rightarrow> int" where
  "wait_us_while P m [] = 0"
| "wait_us_while P m (WaitUS d # evs) = (if P m then d else 0) + wait_us_while P m evs"
| "wait_us_while P m (e # evs) = wait_us_while P (mode_step m e) evs"

definition field_on_us :: "fpga_mode \<Rightarrow> hw_event list \<Rightarrow> int" where
  "field_on_us m evs = wait_us_while field_on m evs"

definition field_off_us :: "fpga_mode \<Rightarrow> hw_event list \<Rightarrow> int" where
  "field_off_us m evs = wait_us_while (\<lambda>m. m = MAJOR_MODE_OFF) m evs"

subsection \<open>Raw modulation and acquisition\<close>

text \<open>
  \<^verbatim>\<open>ModThenAcquireRawAdcSamples125k(delay_off, period_0, period_1, command)\<close>.
  \<open>command\<close> holds the bytes of the C string before its terminating NUL; the routine
  reads it up to the first NUL or space. \<open>divisor\<close> is \<^verbatim>\<open>sc->divisor\<close> of the sampling
  configuration. The bit-bang loop carries the flag \<^verbatim>\<open>off\<close>.
\<close>

fun bitbang_loop :: "u32 \<Rightarrow> u32 \<Rightarrow> bool \<Rightarrow> u8 list \<Rightarrow> hw_event list" where
  "bitbang_loop period_0 period_1 off [] = []"
| "bitbang_loop period_0 period_1 off (c # cs) =
     (if c = 0x30
      then (if \<not> off then [FpgaWriteConfWord MAJOR_MODE_OFF, LED LED_D False] else [])
           @ [WaitUS (uint (period_0 - 7))]
           @ bitbang_loop period_0 period_1 True cs
      else (if off then [FpgaWriteConfWord MAJOR_MODE_LF_ADC_READER_FIELD, LED LED_D True] else [])
           @ [WaitUS (uint (period_1 - 7))]
           @ bitbang_loop period_0 period_1 False cs)"

fun delay_loop :: "u32 \<Rightarrow> u32 \<Rightarrow> u32 \<Rightarrow> int \<Rightarrow> u8 list \<Rightarrow> hw_event list" where
  "delay_loop delay_off period_0 period_1 divisor [] = []"
| "delay_loop delay_off period_0 period_1 divisor (c # cs) =
     [FpgaWriteConfWord MAJOR_MODE_OFF, LED LED_D False, WaitUS (uint delay_off),
      FpgaSendCommand_SET_DIVISOR divisor,
      FpgaWriteConfWord MAJOR_MODE_LF_ADC_READER_FIELD, LED LED_D True,
      WaitUS (uint (if c = 0x30 then period_0 else period_1))]
     @ delay_loop delay_off period_0 period_1 divisor cs"

definition ModThenAcquireRawAdcSamples125k ::
  "u32 \<Rightarrow> u32 \<Rightarrow> u32 \<Rightarrow> u8 list \<Rightarrow> int \<Rightarrow> hw_event list" where
  "ModThenAcquireRawAdcSamples125k delay_off period_0 period_1 command divisor =
     (let cmd = takeWhile (\<lambda>c. c \<noteq> 0 \<and> c \<noteq> 0x20) command;
          setup = [StartTicks, FpgaDownloadAndGo, FpgaWriteConfWord MAJOR_MODE_OFF, WaitMS 2500,
                   BigBuf_Clear_keep_EM, LFSetupFPGAForADC divisor True, WaitMS 2000];
          bitbang = (delay_off = 0);
          hack_cnt = (7 :: u32);
          acquire = [FpgaWriteConfWord MAJOR_MODE_LF_ADC_READER_FIELD, DoAcquisition_config False 0,
                     FpgaWriteConfWord MAJOR_MODE_OFF, cmd_send_ACK]
      in if bitbang
         then (if period_0 < hack_cnt \<or> period_1 < hack_cnt
               then setup @ [DbpString ''Warning periods cannot be less than 7us in bit bang mode'',
                             FpgaWriteConfWord MAJOR_MODE_OFF, LED LED_D False]
               else setup @ bitbang_loop period_0 period_1 False cmd @ acquire)
         else setup @ delay_loop delay_off period_0 period_1 divisor cmd
              @ [FpgaWriteConfWord MAJOR_MODE_OFF, LED LED_D False, WaitUS (uint delay_off),
                 FpgaSendCommand_SET_DIVISOR divisor]
              @ acquire)"

subsection \<open>TI tags\<close>





subsection \<open>Continuous demodulation loops\<close>

text \<open>
  \<^verbatim>\<open>CmdHIDdemodFSK\<close>, \<^verbatim>\<open>CmdAWIDdemodFSK\<close>, \<^verbatim>\<open>CmdEM410xdemod\<close> and \<^verbatim>\<open>CmdIOdemodFSK\<close>
  share one loop: \<^verbatim>\<open>while(!BUTTON_PRESS() && !usb_poll_validate_length())\<close> acquire and
  hand the buffer to the external demodulator. A run is driven by one observation per
  loop test: a stop request, or a pass together with whether the demodulator decoded a
  tag. When the observations are used up the routine has not returned (\<open>None\<close>).
\<close>

datatype scan_obs = StopRequested | ScanPass bool

fun demod_loop :: "string \<Rightarrow> bool \<Rightarrow> bool \<Rightarrow> scan_obs list \<Rightarrow> hw_event list option" where
  "demod_loop report findone ledcontrol [] = None"
| "demod_loop report findone ledcontrol (StopRequested # env) = Some []"
| "demod_loop report findone ledcontrol (ScanPass found # env) =
     (let evs = (if ledcontrol then [LED LED_A True] else [])
                @ [DoAcquisition_default]
                @ (if found then [DbpString report] else [])
      in if found \<and> findone
         then Some (evs @ (if ledcontrol then [LED LED_A False] else []))
         else map_option (\<lambda>rest. evs @ rest) (demod_loop report findone ledcontrol env))"






subsection \<open>The sample buffer and tag simulation\<close>

text \<open>
  \<^verbatim>\<open>BigBuf\<close> is the shared sample buffer: a byte at every offset from
  \<^verbatim>\<open>BigBuf_get_addr()\<close>. The composing routines write at the cursor \<^verbatim>\<open>*n\<close> and advance
  it; \<open>wave\<close> is the buffer together with the cursor. The cursor is a C \<^verbatim>\<open>int\<close>; it is
  modelled as an unbounded \<open>int\<close>, since the buffer's capacity (a caller precondition)
  is far below \<open>2^31\<close>.
\<close>

type_synonym bigbuf = "int \<Rightarrow> u8"
type_synonym wave = "bigbuf \<times> int"

definition memset :: "bigbuf \<Rightarrow> int \<Rightarrow> u8 \<Rightarrow> int \<Rightarrow> bigbuf" where
  "memset dest off c len = (\<lambda>i. if off \<le> i \<and> i < off + len then c else dest i)"




text \<open>
  The three statements that recur in \<^verbatim>\<open>fcAll\<close>:
  \<^verbatim>\<open>memset(dest+(*n), 0, len-half); memset(dest+(*n)+(len-half), 1, half); *n += len;\<close>
\<close>

definition put_wave :: "int \<Rightarrow> int \<Rightarrow> wave \<Rightarrow> wave" where
  "put_wave len half w =
     (case w of (dest, n) \<Rightarrow>
        (memset (memset dest n 0 (len - half)) (n + (len - half)) 1 half, n + len))"

text \<open>
  \<^verbatim>\<open>fcAll(fc, &n, clock, &modCnt)\<close>. All locals are \<^verbatim>\<open>uint8_t\<close>; \<^verbatim>\<open>*modCnt\<close> is a
  \<^verbatim>\<open>uint16_t\<close> and wraps. \<^verbatim>\<open>modAdj = fc/mod\<close> and \<^verbatim>\<open>modAdjOk = !(fc % mod)\<close> are computed
  also when \<^verbatim>\<open>mod\<close> is 0, but read only under \<^verbatim>\<open>mod>0\<close>; the target (an ARM7 without a
  divide instruction) divides in software and does not trap, so the value they get for
  \<^verbatim>\<open>mod = 0\<close> plays no role. A field clock \<^verbatim>\<open>fc = 0\<close> makes \<^verbatim>\<open>clock/fc\<close> itself a
  division by zero whose result is used: the properties below require \<^verbatim>\<open>fc > 0\<close>.
\<close>

definition fcAll :: "u8 \<Rightarrow> u8 \<Rightarrow> wave \<times> u16 \<Rightarrow> wave \<times> u16" where
  "fcAll fc' clock s =
     (case s of (w, modCnt) \<Rightarrow>
        let halfFC = fc' div 2;
            wavesPerClock = clock div fc';
            mod' = clock mod fc';
            modAdj = fc' div mod';
            modAdjOk = (fc' mod mod' = 0);
            w = (put_wave (uint fc') (uint halfFC) ^^ unat wavesPerClock) w;
            modCnt = (if mod' > 0 then modCnt + 1 else modCnt);
            w = (if mod' > 0 \<and> modAdjOk
                 then (if uint modCnt mod uint modAdj = 0
                       then put_wave (uint fc') (uint halfFC) w else w)
                 else w);
            w = (if mod' > 0 \<and> \<not> modAdjOk
                 then put_wave (uint mod') (uint (mod' div 2)) w
                 else w)
        in (w, modCnt))"








subsection \<open>Tag simulation commands\<close>




text \<open>
  \<^verbatim>\<open>CmdFSKsimTAG(arg1, arg2, size, BitStream)\<close>. \<open>BitStream\<close> is the memory behind the
  pointer and \<open>size\<close> the number of bits (below \<open>2^31\<close>, so that the \<^verbatim>\<open>int\<close> counter
  reaches it).
\<close>

definition CmdFSKsimTAG_wave :: "u16 \<Rightarrow> u16 \<Rightarrow> nat \<Rightarrow> (nat \<Rightarrow> u8) \<Rightarrow> bigbuf \<Rightarrow> wave \<times> u16" where
  "CmdFSKsimTAG_wave arg1 arg2 size' BitStream dest =
     (let fcHigh = (ucast (drop_bit 8 arg1) :: u8);
          fcLow = (ucast (arg1 AND 0xFF) :: u8);
          clk = (ucast (arg2 AND 0xFF) :: u8);
          invert = (ucast (drop_bit 8 arg2 AND 1) :: u8)
      in fold (\<lambda>i s. if BitStream i = invert then fcAll fcLow clk s else fcAll fcHigh clk s)
              [0..<size'] ((dest, 0), 0))"










subsection \<open>T55xx timing and the bit primitive\<close>

definition START_GAP :: int where "START_GAP = 31 * 8"
definition WRITE_GAP :: int where "WRITE_GAP = 20 * 8"
definition WRITE_0 :: int where "WRITE_0 = 18 * 8"
definition WRITE_1 :: int where "WRITE_1 = 50 * 8"

definition TurnReadLFOn :: "int \<Rightarrow> hw_event list" where
  "TurnReadLFOn delay =
     [FpgaWriteConfWord MAJOR_MODE_LF_ADC_READER_FIELD, WaitUS delay]"

text \<open>
  \<^verbatim>\<open>T55xxWriteBit(int bit)\<close>: the callers pass masked words (\<^verbatim>\<open>Pwd & i\<close>), so the
  argument is a 32-bit word tested against zero.
\<close>

definition T55xxWriteBit :: "u32 \<Rightarrow> hw_event list" where
  "T55xxWriteBit b =
     (if b = 0 then TurnReadLFOn WRITE_0 else TurnReadLFOn WRITE_1)
     @ [FpgaWriteConfWord MAJOR_MODE_OFF, WaitUS WRITE_GAP]"

subsection \<open>T55xx block operations\<close>

text \<open>
  The loops \<^verbatim>\<open>for (i = 0x80000000; i != 0; i >>= 1) T55xxWriteBit(w & i);\<close> and
  \<^verbatim>\<open>for (i = 0x04; i != 0; i >>= 1) T55xxWriteBit(w & i);\<close>: the arguments passed to
  \<^verbatim>\<open>T55xxWriteBit\<close>, in order, starting from mask \<open>i\<close>.
\<close>

function masked_bits :: "u32 \<Rightarrow> u32 \<Rightarrow> u32 list" where
  "masked_bits w i = (if i \<noteq> 0 then (w AND i) # masked_bits w (drop_bit 1 i) else [])"
  by pat_completeness auto
termination
proof (relation "measure (\<lambda>(w, i). unat i)")
  fix w i :: u32
  assume "i \<noteq> 0"
  then have "0 < unat i"
    by (simp add: unat_gt_0)
  moreover have "unat (drop_bit 1 i) = unat i div 2"
    by (simp add: drop_bit_eq_div unat_div)
  ultimately show "((w, drop_bit 1 i), (w, i)) \<in> measure (\<lambda>(w, i). unat i)"
    by simp
qed simp

declare masked_bits.simps [simp del]

text \<open>The events of a sequence of \<^verbatim>\<open>T55xxWriteBit\<close> calls.\<close>

definition T55xxWriteBits :: "u32 list \<Rightarrow> hw_event list" where
  "T55xxWriteBits bs = concat (map T55xxWriteBit bs)"

text \<open>
  \<^verbatim>\<open>T55xxWriteBlockExt(Data, Block, Pwd, arg)\<close>: first the arguments of its
  \<^verbatim>\<open>T55xxWriteBit\<close> calls (opcode, optional password, lock bit, data, block number),
  then the whole operation.
\<close>

definition T55xxWriteBlockExt_bits :: "u32 \<Rightarrow> u32 \<Rightarrow> u32 \<Rightarrow> u8 \<Rightarrow> u32 list" where
  "T55xxWriteBlockExt_bits Data Block Pwd arg =
     (let PwdMode = (arg AND 0x1 \<noteq> 0);
          Page = drop_bit 1 (arg AND 0x2);
          testMode = (arg AND 0x4 \<noteq> 0)
      in [if testMode then 0 else 1, if testMode then 1 else ucast Page]
         @ (if PwdMode then masked_bits Pwd 0x80000000 else [])
         @ [0]
         @ masked_bits Data 0x80000000
         @ masked_bits Block 0x04)"

definition T55xxWriteBlockExt :: "u32 \<Rightarrow> u32 \<Rightarrow> u32 \<Rightarrow> u8 \<Rightarrow> hw_event list" where
  "T55xxWriteBlockExt Data Block Pwd arg =
     (let testMode = (arg AND 0x4 \<noteq> 0)
      in [LED LED_A True, LFSetupFPGAForADC 95 True, StartTicks, WaitMS 5,
          FpgaWriteConfWord MAJOR_MODE_OFF, WaitUS START_GAP]
         @ (if testMode then [DbpString ''TestMODE''] else [])
         @ T55xxWriteBits (T55xxWriteBlockExt_bits Data Block Pwd arg)
         @ (if testMode then TurnReadLFOn 5184 else TurnReadLFOn (20 * 1000))
         @ [FpgaWriteConfWord MAJOR_MODE_OFF, LED LED_A False])"






subsection \<open>Cloning routines\<close>

text \<open>
  \<^verbatim>\<open>WriteT55xx(blockdata, startblock, numblocks)\<close>: the loop counter is a \<^verbatim>\<open>uint8_t\<close>
  initialised with \<^verbatim>\<open>numblocks+startblock\<close> (truncated to 8 bits) and counts down while it
  is above \<^verbatim>\<open>startblock\<close>. \<open>blockdata\<close> is the memory the pointer refers to, indexed from
  the pointer. \<open>WriteT55xx_calls\<close> lists the argument tuples
  \<open>(Data, Block, Pwd, arg)\<close> of the successive \<^verbatim>\<open>T55xxWriteBlockExt\<close> calls.
\<close>

function WriteT55xx_loop :: "(nat \<Rightarrow> u32) \<Rightarrow> u8 \<Rightarrow> u8 \<Rightarrow> (u32 \<times> u32 \<times> u32 \<times> u8) list" where
  "WriteT55xx_loop blockdata startblock i =
     (if i > startblock
      then (blockdata (unat i - 1), word_of_nat (unat i - 1), 0, 0)
           # WriteT55xx_loop blockdata startblock (i - 1)
      else [])"
  by pat_completeness auto
termination
proof (relation "measure (\<lambda>(blockdata, startblock, i). unat i)")
  fix blockdata :: "nat \<Rightarrow> u32" and startblock i :: u8
  assume "startblock < i"
  then have "i \<noteq> 0"
    by (auto simp: word_less_nat_alt)
  then have "unat (i - 1) = unat i - 1" and "0 < unat i"
    by (simp_all add: unat_minus_one unat_gt_0)
  then show "((blockdata, startblock, i - 1), (blockdata, startblock, i))
      \<in> measure (\<lambda>(blockdata, startblock, i). unat i)"
    by simp
qed simp

declare WriteT55xx_loop.simps [simp del]

definition WriteT55xx_calls :: "(nat \<Rightarrow> u32) \<Rightarrow> u8 \<Rightarrow> u8 \<Rightarrow> (u32 \<times> u32 \<times> u32 \<times> u8) list" where
  "WriteT55xx_calls blockdata startblock numblocks =
     WriteT55xx_loop blockdata startblock (numblocks + startblock)"


definition WriteT55xx :: "(nat \<Rightarrow> u32) \<Rightarrow> u8 \<Rightarrow> u8 \<Rightarrow> hw_event list" where
  "WriteT55xx blockdata startblock numblocks =
     concat (map (\<lambda>(Data, Block, Pwd, arg). T55xxWriteBlockExt Data Block Pwd arg)
                 (WriteT55xx_calls blockdata startblock numblocks))"

text \<open>
  The configuration-word constants and macros of \<^verbatim>\<open>protocols.h\<close>, the clock table
  \<^verbatim>\<open>GetT55xxClockBit\<close> and \<^verbatim>\<open>manchesterEncode2Bytes\<close> are declared outside this file
  and are not among the sources: the routines below take them as parameters.
\<close>

record protocols_h =
  T55x7_BITRATE_RF_32 :: u32
  T55x7_BITRATE_RF_50 :: u32
  T55x7_BITRATE_RF_64 :: u32
  T55x7_MODULATION_FSK2a :: u32
  T55x7_MODULATION_PSK1 :: u32
  T55x7_MODULATION_PSK2 :: u32
  T55x7_MODULATION_MANCHESTER :: u32
  T55x7_MAXBLOCK_SHIFT :: nat
  T5555_SET_BITRATE :: "u32 \<Rightarrow> u32"
  T5555_MODULATION_MANCHESTER :: u32
  T5555_MAXBLOCK_SHIFT :: nat
  GetT55xxClockBit :: "u32 \<Rightarrow> u32"
  manchesterEncode2Bytes :: "u32 \<Rightarrow> u32"






subsection \<open>EM410x\<close>

text \<open>
  \<^verbatim>\<open>WriteEM410x(card, id_hi, id_lo)\<close>. The first loop reverses the low 40 bits of the ID
  into \<^verbatim>\<open>rev_id\<close>; its state is \<open>(rev_id, id_hi, id_lo)\<close>.
\<close>

definition EM410X_HEADER :: u64 where "EM410X_HEADER = 0x1FF"
definition EM410X_ID_LENGTH :: nat where "EM410X_ID_LENGTH = 40"

definition em410x_reverse_step :: "nat \<Rightarrow> u64 \<times> u32 \<times> u32 \<Rightarrow> u64 \<times> u32 \<times> u32" where
  "em410x_reverse_step i s =
     (case s of (rev_id, id_hi, id_lo) \<Rightarrow>
        if i < 32
        then (push_bit 1 rev_id OR ucast (id_lo AND 1), id_hi, drop_bit 1 id_lo)
        else (push_bit 1 rev_id OR ucast (id_hi AND 1), drop_bit 1 id_hi, id_lo))"

text \<open>
  The second loop builds the tag pattern \<^verbatim>\<open>id\<close> (here \<open>tag_id\<close>); its state is
  \<open>(tag_id, rev_id, c_parity, r_parity)\<close>. The C \<^verbatim>\<open>int\<close> values \<^verbatim>\<open>id_bit\<close>, \<^verbatim>\<open>r_parity\<close> and
  \<^verbatim>\<open>c_parity[]\<close> only ever hold 0 or 1 and are kept as 64-bit words; every
  \<^verbatim>\<open>c_parity[i]\<close> is assigned (for \<^verbatim>\<open>i < 4\<close>) before it is read.
\<close>

definition em410x_encode_step ::
  "nat \<Rightarrow> u64 \<times> u64 \<times> u64 list \<times> u64 \<Rightarrow> u64 \<times> u64 \<times> u64 list \<times> u64" where
  "em410x_encode_step i s =
     (case s of (tag_id, rev_id, c_parity, r_parity) \<Rightarrow>
        let id_bit = rev_id AND 1;
            tag_id = (if i mod 4 = 0 \<and> i \<noteq> 0 then push_bit 1 tag_id OR r_parity else tag_id);
            r_parity = (if i mod 4 = 0 then id_bit else r_parity XOR id_bit);
            c_parity = (if i < 4 then c_parity[i := id_bit]
                        else c_parity[i mod 4 := c_parity ! (i mod 4) XOR id_bit]);
            tag_id = push_bit 1 tag_id OR id_bit;
            rev_id = drop_bit 1 rev_id
        in (tag_id, rev_id, c_parity, r_parity))"

definition em410x_id :: "u32 \<Rightarrow> u32 \<Rightarrow> u64" where
  "em410x_id id_hi id_lo =
     (let (rev_id, id_hi', id_lo') = fold em410x_reverse_step [0..<EM410X_ID_LENGTH] (0, id_hi, id_lo);
          (tag_id, rev_id', c_parity, r_parity) =
             fold em410x_encode_step [0..<EM410X_ID_LENGTH] (EM410X_HEADER, rev_id, [0, 0, 0, 0], 0);
          tag_id = push_bit 1 tag_id OR r_parity;
          tag_id = fold (\<lambda>i tag_id. push_bit 1 tag_id OR c_parity ! i) [0..<4] tag_id;
          tag_id = push_bit 1 tag_id
      in tag_id)"

definition WriteEM410x :: "protocols_h \<Rightarrow> u32 \<Rightarrow> u32 \<Rightarrow> u32 \<Rightarrow> hw_event list" where
  "WriteEM410x P card' id_hi id_lo =
     (let tag_id = em410x_id id_hi id_lo;
          data = [0, ucast (drop_bit 32 tag_id), ucast (tag_id AND 0xFFFFFFFF)];
          clock = drop_bit 8 (card' AND 0xFF00);
          clock = (if clock = 0 then 64 else clock);
          started = [DbpString ''Started writing %s tag ...'', LED LED_D True,
                     DbpString ''Clock rate: %d''];
          finish = (\<lambda>data. WriteT55xx ((!) data) 0 3
                      @ [LED LED_D False, DbpString ''Tag %s written with 0x%08x%08x'']) 
      in if card' AND 0xFF \<noteq> 0
         then (let clock = GetT55xxClockBit P clock
               in if clock = 0
                  then started @ [DbpString ''Invalid clock rate: %d'']
                  else started
                       @ finish (data[0 := clock OR T55x7_MODULATION_MANCHESTER P
                                            OR push_bit (T55x7_MAXBLOCK_SHIFT P) 2]))
         else started
              @ finish (data[0 := T5555_SET_BITRATE P clock OR T5555_MODULATION_MANCHESTER P
                                   OR push_bit (T5555_MAXBLOCK_SHIFT P) 2]))"

subsection \<open>EM4469 / EM4305 forward link\<close>


text \<open>
  The global \<^verbatim>\<open>forwardLink_data[64]\<close> with the cursor \<^verbatim>\<open>forward_ptr\<close> (an index into it).
  \<open>fwd_put v\<close> is \<^verbatim>\<open>*forward_ptr++ = v;\<close>. Each stored byte carries one bit of the frame
  in its least significant bit; the higher bits are whatever the shifted source value
  holds, and \<^verbatim>\<open>SendForward\<close> masks them off.
\<close>

type_synonym fwd_link = "(nat \<Rightarrow> u8) \<times> nat"

definition fwd_put :: "u8 \<Rightarrow> fwd_link \<Rightarrow> fwd_link" where
  "fwd_put v f = (case f of (forwardLink_data, forward_ptr) \<Rightarrow>
     (forwardLink_data(forward_ptr := v), forward_ptr + 1))"



text \<open>
  \<^verbatim>\<open>Prepare_Data(data_low, data_hi)\<close>. The inner loop over the 8 bits of a row carries
  \<open>(f, line_parity, column_parity, data)\<close>; the outer loop over the 4 rows carries
  \<open>(f, column_parity, data)\<close>. \<^verbatim>\<open>line_parity\<close> and \<^verbatim>\<open>column_parity\<close> are \<^verbatim>\<open>uint8_t\<close>,
  \<^verbatim>\<open>data\<close> is \<^verbatim>\<open>uint16_t\<close> and is truncated when stored or folded into the parity. The
  final \<^verbatim>\<open>*forward_ptr = 0\<close> does not advance the cursor.
\<close>

definition Prepare_Data_bit ::
  "nat \<Rightarrow> fwd_link \<times> u8 \<times> u8 \<times> u16 \<Rightarrow> fwd_link \<times> u8 \<times> u8 \<times> u16" where
  "Prepare_Data_bit j s =
     (case s of (f, line_parity, column_parity, data) \<Rightarrow>
        let line_parity = line_parity XOR ucast data;
            column_parity = column_parity XOR ucast (push_bit j (data AND 1));
            f = fwd_put (ucast data) f;
            data = drop_bit 1 data
        in (f, line_parity, column_parity, data))"

definition Prepare_Data_row :: "u16 \<Rightarrow> nat \<Rightarrow> fwd_link \<times> u8 \<times> u16 \<Rightarrow> fwd_link \<times> u8 \<times> u16" where
  "Prepare_Data_row data_hi i s =
     (case s of (f, column_parity, data) \<Rightarrow>
        let (f, line_parity, column_parity, data) =
              fold Prepare_Data_bit [0..<8] (f, 0, column_parity, data);
            f = fwd_put line_parity f;
            data = (if i = 1 then data_hi else data)
        in (f, column_parity, data))"

definition Prepare_Data :: "u16 \<Rightarrow> u16 \<Rightarrow> fwd_link \<Rightarrow> fwd_link \<times> u8" where
  "Prepare_Data data_low data_hi f =
     (let (f, column_parity, data) = fold (Prepare_Data_row data_hi) [0..<4] (f, 0, data_low);
          (f, column_parity) =
            fold (\<lambda>j (f, column_parity). (fwd_put column_parity f, drop_bit 1 column_parity))
                 [0..<8] (f, column_parity)
      in (case f of (forwardLink_data, forward_ptr) \<Rightarrow>
            ((forwardLink_data(forward_ptr := 0), forward_ptr), 45)))"






subsection \<open>COTAG\<close>


subsection \<open>The forward-link frame as a list of bits\<close>

text \<open>
  The bit that \<^verbatim>\<open>SendForward\<close> sends for an entry of \<^verbatim>\<open>forwardLink_data\<close> (its test is
  \<^verbatim>\<open>((*fwd_write_ptr++) & 1) == 1\<close>), and the XOR of a list of bits.
\<close>

definition fwd_bit :: "(nat \<Rightarrow> u8) \<Rightarrow> nat \<Rightarrow> bool" where
  "fwd_bit forwardLink_data k = (forwardLink_data k AND 1 = 1)"

definition xor_bits :: "bool list \<Rightarrow> bool" where
  "xor_bits bs = foldl (\<lambda>a b. a \<noteq> b) False bs"

text \<open>
  The data sub-frame in the words of the specification: the 32 bits as four 8-bit rows
  (row \<open>i\<close> holds bits \<open>8 i\<close> to \<open>8 i + 7\<close>, least significant first), each
  immediately followed by its row parity, the XOR of the 8 row bits; then 8 column-parity
  bits, where column parity \<open>j\<close> is the XOR of bit \<open>j\<close> across the 4 rows.
\<close>

definition data_frame :: "u32 \<Rightarrow> bool list" where
  "data_frame Data =
     concat (map (\<lambda>i. let row = map (\<lambda>j. bit Data (8 * i + j)) [0..<8]
                         in row @ [xor_bits row]) [0..<4])
     @ map (\<lambda>j. xor_bits (map (\<lambda>i. bit Data (8 * i + j)) [0..<4])) [0..<8]"

text \<open>
  Auxiliary notions for the proofs: writing a list of bytes at the cursor, and the
  bytes that \<^verbatim>\<open>Prepare_Data\<close> stores (the 8 bytes of a row, the row parity byte, the 8
  column parity bytes).
\<close>

definition fwd_write :: "u8 list \<Rightarrow> fwd_link \<Rightarrow> fwd_link" where
  "fwd_write xs f = fold fwd_put xs f"

definition row_bytes :: "u16 \<Rightarrow> u8 list" where
  "row_bytes data =
     [ucast data, ucast (drop_bit 1 data), ucast (drop_bit 2 data), ucast (drop_bit 3 data),
      ucast (drop_bit 4 data), ucast (drop_bit 5 data), ucast (drop_bit 6 data),
      ucast (drop_bit 7 data)]"

definition row_parity :: "u16 \<Rightarrow> u8" where
  "row_parity data = ((((((((0 XOR ucast data) XOR ucast (drop_bit 1 data)) XOR ucast (drop_bit 2 data)) XOR ucast (drop_bit 3 data)) XOR ucast (drop_bit 4 data)) XOR ucast (drop_bit 5 data)) XOR ucast (drop_bit 6 data)) XOR ucast (drop_bit 7 data))"

definition column_bytes :: "u8 \<Rightarrow> u8 list" where
  "column_bytes cp =
     [cp, drop_bit 1 cp, drop_bit 2 cp, drop_bit 3 cp, drop_bit 4 cp, drop_bit 5 cp,
      drop_bit 6 cp, drop_bit 7 cp]"

definition Prepare_Data_bytes :: "u16 \<Rightarrow> u16 \<Rightarrow> u8 list" where
  "Prepare_Data_bytes data_low data_hi =
     row_bytes data_low @ [row_parity data_low]
     @ row_bytes (drop_bit 8 data_low) @ [row_parity (drop_bit 8 data_low)]
     @ row_bytes data_hi @ [row_parity data_hi]
     @ row_bytes (drop_bit 8 data_hi) @ [row_parity (drop_bit 8 data_hi)]
     @ column_bytes (((ucast data_low XOR ucast (drop_bit 8 data_low))
                      XOR ucast data_hi) XOR ucast (drop_bit 8 data_hi))"

text \<open>
  An instance of the parameters for closed examples: every constant 0, every table the
  identity. The examples that use it hold for every other instance as well.
\<close>

definition protocols_h_example :: protocols_h where
  "protocols_h_example =
     \<lparr>T55x7_BITRATE_RF_32 = 0, T55x7_BITRATE_RF_50 = 0, T55x7_BITRATE_RF_64 = 0,
      T55x7_MODULATION_FSK2a = 0, T55x7_MODULATION_PSK1 = 0, T55x7_MODULATION_PSK2 = 0,
      T55x7_MODULATION_MANCHESTER = 0, T55x7_MAXBLOCK_SHIFT = 0,
      T5555_SET_BITRATE = id, T5555_MODULATION_MANCHESTER = 0, T5555_MAXBLOCK_SHIFT = 0,
      GetT55xxClockBit = id, manchesterEncode2Bytes = id\<rparr>"

text \<open>
  Events that drive the antenna, the FPGA or the sampling path, as opposed to debug
  output, LEDs and the host acknowledgement.
\<close>

fun hardware_emission :: "hw_event \<Rightarrow> bool" where
  "hardware_emission (DbpString s) = False"
| "hardware_emission (LED l b) = False"
| "hardware_emission cmd_send_ACK = False"
| "hardware_emission _ = True"

section \<open>Properties\<close>

subsection \<open>The T55xx bit primitive\<close>

lemma T55xxWriteBit_events:
  "T55xxWriteBit b =
     [FpgaWriteConfWord MAJOR_MODE_LF_ADC_READER_FIELD,
      WaitUS (if b = 0 then 144 else 400),
      FpgaWriteConfWord MAJOR_MODE_OFF,
      WaitUS 160]"
  by (simp add: T55xxWriteBit_def TurnReadLFOn_def WRITE_0_def WRITE_1_def WRITE_GAP_def)

text \<open>
  Claim C1, as stated, fails: the two bit values do not differ in their field-off
  duration (160 microseconds for both), and they do differ in their field-on duration
  (144 against 400 microseconds).
\<close>

theorem T55xxWriteBit_off_duration_fixed_counterexample:
  "field_off_us MAJOR_MODE_OFF (T55xxWriteBit 0) = field_off_us MAJOR_MODE_OFF (T55xxWriteBit 1)
   \<and> field_on_us MAJOR_MODE_OFF (T55xxWriteBit 0) \<noteq> field_on_us MAJOR_MODE_OFF (T55xxWriteBit 1)"
  by (simp add: T55xxWriteBit_events field_off_us_def field_on_us_def field_on_def)

text \<open>
  Claim C1, amended: for every bit sent by \<^verbatim>\<open>T55xxWriteBit\<close> the field is first held on
  for a duration selected by the bit (\<^verbatim>\<open>WRITE_0\<close> = 144 microseconds for 0, \<^verbatim>\<open>WRITE_1\<close> =
  400 microseconds for 1) and then held off for the fixed gap \<^verbatim>\<open>WRITE_GAP\<close> = 160
  microseconds; the primitive returns with the field off. The bit value is encoded
  entirely in the field-on duration, whatever mode the FPGA was in before.
\<close>

theorem T55xxWriteBit_on_duration_encodes_bit:
  "field_on_us m (T55xxWriteBit b) = (if b = 0 then 144 else 400)
   \<and> field_off_us m (T55xxWriteBit b) = 160
   \<and> mode_after m (take 2 (T55xxWriteBit b)) = MAJOR_MODE_LF_ADC_READER_FIELD
   \<and> mode_after m (T55xxWriteBit b) = MAJOR_MODE_OFF"
  by (simp add: T55xxWriteBit_events field_off_us_def field_on_us_def field_on_def
      mode_after_def)

subsection \<open>T55xx block read: the block address\<close>








subsection \<open>Multi-block writes\<close>









subsection \<open>The FPGA mode an operation leaves behind\<close>

lemma mode_after_append: "mode_after m (xs @ ys) = mode_after (mode_after m xs) ys"
  by (simp add: mode_after_def)

lemma mode_after_Cons: "mode_after m (e # evs) = mode_after (mode_step m e) evs"
  by (simp add: mode_after_def)

lemma mode_after_Nil: "mode_after m [] = m"
  by (simp add: mode_after_def)

lemmas mode_after_simps = mode_after_append mode_after_Cons mode_after_Nil

lemma mode_after_T55xxWriteBit: "mode_after m (T55xxWriteBit b) = MAJOR_MODE_OFF"
  by (simp add: T55xxWriteBit_events mode_after_simps)

lemma mode_after_T55xxWriteBits:
  "mode_after m (T55xxWriteBits bs) = (if bs = [] then m else MAJOR_MODE_OFF)"
  by (induction bs arbitrary: m)
     (simp_all add: T55xxWriteBits_def mode_after_simps mode_after_T55xxWriteBit)



















lemma demod_loop_mode: "demod_loop r f l env = Some evs \<Longrightarrow> mode_after m evs = m"
  by (induction r f l env arbitrary: evs m rule: demod_loop.induct)
     (auto simp: Let_def mode_after_simps split: if_splits)


















subsection \<open>The bit-bang timing precondition\<close>

text \<open>
  Claim C6, as stated, fails: with \<^verbatim>\<open>delay_off = 0\<close> and \<^verbatim>\<open>period_0 = 6\<close> the reader field
  is driven during the run, because the power-up \<^verbatim>\<open>LFSetupFPGAForADC(sc->divisor, 1)\<close> and
  the 2000 ms wait come before the period check.
\<close>

theorem ModThenAcquire_field_powered_before_check_counterexample:
  "field_ever_on MAJOR_MODE_OFF
     (ModThenAcquireRawAdcSamples125k 0 6 10 [0x31, 0x30, 0x31] 95)"
  by (simp add: ModThenAcquireRawAdcSamples125k_def Let_def field_on_def)

text \<open>
  Claim C6, amended: if a period is below 7 microseconds in bit-bang mode
  (\<^verbatim>\<open>delay_off = 0\<close>), \<^verbatim>\<open>ModThenAcquireRawAdcSamples125k\<close> reports the error and aborts:
  after the common set-up (FPGA off for 2500 ms, buffer cleared, field powered up for
  2000 ms) it prints the warning, switches the FPGA off and returns. No command bit is
  modulated, nothing is acquired or acknowledged, and the field is off at the return; but
  the field has been on during the power-up that precedes the check.
\<close>

theorem ModThenAcquire_short_period_aborts:
  assumes "delay_off = 0" and "period_0 < 7 \<or> period_1 < 7"
  shows "ModThenAcquireRawAdcSamples125k delay_off period_0 period_1 command divisor =
      [StartTicks, FpgaDownloadAndGo, FpgaWriteConfWord MAJOR_MODE_OFF, WaitMS 2500,
       BigBuf_Clear_keep_EM, LFSetupFPGAForADC divisor True, WaitMS 2000,
       DbpString ''Warning periods cannot be less than 7us in bit bang mode'',
       FpgaWriteConfWord MAJOR_MODE_OFF, LED LED_D False]
    \<and> mode_after m (ModThenAcquireRawAdcSamples125k delay_off period_0 period_1 command divisor)
        = MAJOR_MODE_OFF
    \<and> field_ever_on m (ModThenAcquireRawAdcSamples125k delay_off period_0 period_1 command divisor)"
  using assms
  by (simp add: ModThenAcquireRawAdcSamples125k_def Let_def mode_after_simps field_on_def)

theorem ModThenAcquire_short_period_aborts_witness:
  "(0 :: u32) = 0 \<and> ((6 :: u32) < 7 \<or> (10 :: u32) < 7)
   \<and> ModThenAcquireRawAdcSamples125k 0 6 10 [0x31, 0x30, 0x31] 95 =
      [StartTicks, FpgaDownloadAndGo, FpgaWriteConfWord MAJOR_MODE_OFF, WaitMS 2500,
       BigBuf_Clear_keep_EM, LFSetupFPGAForADC 95 True, WaitMS 2000,
       DbpString ''Warning periods cannot be less than 7us in bit bang mode'',
       FpgaWriteConfWord MAJOR_MODE_OFF, LED LED_D False]
   \<and> mode_after MAJOR_MODE_OFF (ModThenAcquireRawAdcSamples125k 0 6 10 [0x31, 0x30, 0x31] 95)
       = MAJOR_MODE_OFF"
  using ModThenAcquire_short_period_aborts [of 0 6 10 "[0x31, 0x30, 0x31]" 95 MAJOR_MODE_OFF]
  by (simp add: mode_after_simps)

subsection \<open>Validation in the card-ID encoders\<close>





lemma WriteEM410x_invalid_clock:
  assumes "card' AND 0xFF \<noteq> 0"
    and "GetT55xxClockBit P (if drop_bit 8 (card' AND 0xFF00) = 0 then 64
                             else drop_bit 8 (card' AND 0xFF00)) = 0"
  shows "WriteEM410x P card' id_hi id_lo =
      [DbpString ''Started writing %s tag ...'', LED LED_D True,
       DbpString ''Clock rate: %d'', DbpString ''Invalid clock rate: %d'']"
  using assms by (auto simp add: WriteEM410x_def Let_def split: if_splits)

lemma WriteEM410x_code0:
  assumes "drop_bit 8 (card' AND 0xFF00) = 0"
  shows "WriteEM410x P card' id_hi id_lo =
         WriteEM410x (P\<lparr>GetT55xxClockBit := (\<lambda>c. GetT55xxClockBit P 64)\<rparr>) card' id_hi id_lo"
  using assms by (simp add: WriteEM410x_def Let_def)







subsection \<open>EM410x: the clock rate\<close>

text \<open>
  Claim C10: when \<^verbatim>\<open>WriteEM410x\<close> targets a T55x7 card (\<^verbatim>\<open>card & 0xFF\<close> nonzero), a
  clock-rate code of 0 (bits 8 to 15 of \<^verbatim>\<open>card\<close>) is replaced by 64 before the lookup:
  the run depends on the clock table only through its entry for 64. If the looked-up
  entry is 0 (the rate is not in the table), the routine returns after its messages,
  before any block is written and without any hardware emission.
\<close>

theorem WriteEM410x_clock_rate:
  assumes "card' AND 0xFF \<noteq> 0"
  shows "(drop_bit 8 (card' AND 0xFF00) = 0 \<longrightarrow>
            WriteEM410x P card' id_hi id_lo =
            WriteEM410x (P\<lparr>GetT55xxClockBit := (\<lambda>c. GetT55xxClockBit P 64)\<rparr>) card' id_hi id_lo)
    \<and> (GetT55xxClockBit P (if drop_bit 8 (card' AND 0xFF00) = 0 then 64
                             else drop_bit 8 (card' AND 0xFF00)) = 0 \<longrightarrow>
          WriteEM410x P card' id_hi id_lo =
            [DbpString ''Started writing %s tag ...'', LED LED_D True,
             DbpString ''Clock rate: %d'', DbpString ''Invalid clock rate: %d'']
          \<and> filter hardware_emission (WriteEM410x P card' id_hi id_lo) = [])"
proof (intro conjI impI)
  assume "drop_bit 8 (card' AND 0xFF00) = 0"
  then show "WriteEM410x P card' id_hi id_lo =
      WriteEM410x (P\<lparr>GetT55xxClockBit := (\<lambda>c. GetT55xxClockBit P 64)\<rparr>) card' id_hi id_lo"
    by (rule WriteEM410x_code0)
next
  assume z: "GetT55xxClockBit P (if drop_bit 8 (card' AND 0xFF00) = 0 then 64
                                 else drop_bit 8 (card' AND 0xFF00)) = 0"
  show inv: "WriteEM410x P card' id_hi id_lo =
      [DbpString ''Started writing %s tag ...'', LED LED_D True,
       DbpString ''Clock rate: %d'', DbpString ''Invalid clock rate: %d'']"
    by (rule WriteEM410x_invalid_clock [OF assms z])
  show "filter hardware_emission (WriteEM410x P card' id_hi id_lo) = []"
    by (simp add: inv)
qed

theorem WriteEM410x_clock_rate_witness:
  "(1 :: u32) AND 0xFF \<noteq> 0 \<and> drop_bit 8 ((1 :: u32) AND 0xFF00) = 0
   \<and> GetT55xxClockBit (protocols_h_example\<lparr>GetT55xxClockBit := (\<lambda>c. if c = 64 then 0 else 1)\<rparr>)
        (if drop_bit 8 ((1 :: u32) AND 0xFF00) = 0 then 64 else drop_bit 8 ((1 :: u32) AND 0xFF00)) = 0
   \<and> WriteEM410x (protocols_h_example\<lparr>GetT55xxClockBit := (\<lambda>c. if c = 64 then 0 else 1)\<rparr>)
        1 0x12 0x34567890 =
        [DbpString ''Started writing %s tag ...'', LED LED_D True,
         DbpString ''Clock rate: %d'', DbpString ''Invalid clock rate: %d'']"
  using WriteEM410x_clock_rate
      [of 1 "protocols_h_example\<lparr>GetT55xxClockBit := (\<lambda>c. if c = 64 then 0 else 1)\<rparr>"
         "0x12" "0x34567890", THEN conjunct2]
  by simp

subsection \<open>Biphase encoding\<close>

lemma memset_inside: "off \<le> i \<Longrightarrow> i < off + len \<Longrightarrow> memset dest off c len i = c"
  by (simp add: memset_def)

lemma memset_outside: "i < off \<or> off + len \<le> i \<Longrightarrow> memset dest off c len i = dest i"
  by (auto simp add: memset_def)












subsection \<open>FSK: the sample count of a bit\<close>

lemma put_wave_cursor: "snd (put_wave len half w) = snd w + len"
  by (cases w) (simp add: put_wave_def)

lemma put_wave_funpow_cursor: "snd ((put_wave len half ^^ k) w) = snd w + int k * len"
  by (induction k) (simp_all add: put_wave_cursor algebra_simps)

lemma fcAll_modCnt:
  "snd (fcAll fc' clock (w, modCnt)) = (if clock mod fc' = 0 then modCnt else modCnt + 1)"
  by (simp add: fcAll_def Let_def word_gt_0)

lemma fcAll_cursor:
  "snd (fst (fcAll fc' clock (w, modCnt))) =
     snd w + uint (clock div fc') * uint fc'
     + (if clock mod fc' = 0 then 0
        else if fc' mod (clock mod fc') = 0
        then (if uint (modCnt + 1) mod uint (fc' div (clock mod fc')) = 0 then uint fc' else 0)
        else uint (clock mod fc'))"
  by (simp add: fcAll_def Let_def word_gt_0 put_wave_cursor put_wave_funpow_cursor)

lemma funpow_state: "(f ^^ Suc k) s = f (fst ((f ^^ k) s), snd ((f ^^ k) s))"
  by simp

lemma fcAll_run_no_modifier:
  assumes "clock mod fc' = 0"
  shows "snd (fst ((fcAll fc' clock ^^ k) s)) =
     snd (fst s) + uint (clock div fc') * uint fc' * int k"
proof (induction k)
  case 0
  then show ?case by simp
next
  case (Suc k)
  show ?case
    unfolding funpow_state
    by (simp only: fcAll_cursor Suc.IH assms if_True) (simp add: algebra_simps)
qed

lemma fcAll_run_fsk1:
  assumes "clock mod fc' \<noteq> 0" and "fc' mod (clock mod fc') \<noteq> 0"
  shows "snd (fst ((fcAll fc' clock ^^ k) s)) =
     snd (fst s) + (uint (clock div fc') * uint fc' + uint (clock mod fc')) * int k"
proof (induction k)
  case 0
  then show ?case by simp
next
  case (Suc k)
  show ?case
    unfolding funpow_state
    by (simp only: fcAll_cursor Suc.IH assms if_False) (simp add: algebra_simps)
qed

lemma fcAll_run_modCnt:
  assumes "clock mod fc' \<noteq> 0"
  shows "snd ((fcAll fc' clock ^^ k) (w, 0)) = word_of_nat k"
proof (induction k)
  case 0
  then show ?case by simp
next
  case (Suc k)
  show ?case
    unfolding funpow_state
    by (simp only: fcAll_modCnt Suc.IH assms if_False) simp
qed

lemma uint_of_nat_u16: "k < 65536 \<Longrightarrow> uint (word_of_nat k :: u16) = int k"
  by (simp add: uint_nat unat_of_nat)

lemma fcAll_run_fsk2:
  assumes "clock mod fc' \<noteq> 0" and "fc' mod (clock mod fc') = 0" and "k < 65536"
  shows "snd (fst ((fcAll fc' clock ^^ k) (w, 0))) =
     snd w + uint (clock div fc') * uint fc' * int k
     + int (k div unat (fc' div (clock mod fc'))) * uint fc'"
  using assms(3)
proof (induction k)
  case 0
  then show ?case by simp
next
  case (Suc k)
  have cnt: "uint (word_of_nat k + 1 :: u16) = int (Suc k)"
    using uint_of_nat_u16 [of "Suc k"] Suc.prems by (simp add: add.commute)
  have a: "uint (fc' div (clock mod fc')) = int (unat (fc' div (clock mod fc')))"
    by (rule uint_nat)
  have m: "(int (Suc k) mod int (unat (fc' div (clock mod fc'))) = 0) =
      (Suc k mod unat (fc' div (clock mod fc')) = 0)"
    by (metis of_nat_eq_0_iff zmod_int)
  from Suc have IH: "snd (fst ((fcAll fc' clock ^^ k) (w, 0))) =
     snd w + uint (clock div fc') * uint fc' * int k
     + int (k div unat (fc' div (clock mod fc'))) * uint fc'"
    by simp
  show ?case
    unfolding funpow_state
    apply (simp only: fcAll_cursor fcAll_run_modCnt [OF assms(1)] IH assms(1,2) if_False if_True cnt a m)
    apply (simp add: div_Suc algebra_simps)
    done
qed

lemma fold_uniform:
  "(\<forall>i \<in> set is. P i) \<Longrightarrow> fold (\<lambda>i s. if P i then f s else g s) is s = (f ^^ length is) s"
  by (induction "is" arbitrary: s) (simp_all add: funpow_swap1)

lemma CmdFSKsimTAG_wave_uniform:
  assumes "\<forall>i < size'. BitStream i = ucast (drop_bit 8 arg2 AND 1)"
  shows "CmdFSKsimTAG_wave arg1 arg2 size' BitStream dest =
     (fcAll (ucast (arg1 AND 0xFF)) (ucast (arg2 AND 0xFF)) ^^ size') ((dest, 0), 0)"
  using assms fold_uniform [of "[0..<size']" "\<lambda>i. BitStream i = ucast (drop_bit 8 arg2 AND 1)"]
  by (simp add: CmdFSKsimTAG_wave_def Let_def)

text \<open>
  Claim C3, as stated, fails in two places. With clock 51 and field clock 8 (remainder 3,
  which does not divide 8) one bit takes 51 samples: 6 waves of 8 and one shortened wave of
  3, which is not \<open>wavesPerClock * fc * bits\<close> plus a whole number of \<open>fc\<close>-sample
  waves. With clock 50 and field clock 8 (remainder 2, \<open>fc / remainder = 4\<close>) the first
  three bits take 6 waves each and no extra wave, although 18 field-clock waves have gone
  by: the extra wave is counted per bit, not per wave.
\<close>

theorem fcAll_extra_wave_counterexample:
  "snd (fst (fcAll 8 51 ((\<lambda>i. 0, 0), 0))) = 51
   \<and> (51 - uint ((51 :: u8) div 8) * uint (8 :: u8) * 1) mod uint (8 :: u8) \<noteq> 0
   \<and> snd (fst (fcAll 8 50 ((\<lambda>i. 0, 0), 0))) = 6 * 8
   \<and> snd (fst ((fcAll 8 50 ^^ 3) ((\<lambda>i. 0, 0), 0))) = 3 * (6 * 8)"
  using fcAll_run_fsk2 [of 50 8 3 "(\<lambda>i. 0, 0)"]
  by (simp add: fcAll_cursor)

text \<open>
  Claim C3, amended: for every call of \<^verbatim>\<open>fcAll\<close> (one FSK bit) with clock \<open>C\<close> and a
  nonzero field clock \<open>fc\<close>, \<open>C div fc\<close> waves of \<open>fc\<close> samples are emitted, and then: if
  \<open>C mod fc\<close> is nonzero and divides \<open>fc\<close>, the modifier counter is advanced and one
  extra \<open>fc\<close>-sample wave is inserted when the counter is a multiple of
  \<open>fc / (C mod fc)\<close>, that is on every \<open>fc / (C mod fc)\<close>-th such bit (FSK2); if
  \<open>C mod fc\<close> is nonzero and does not divide \<open>fc\<close>, the counter is advanced and one
  shortened wave of \<open>C mod fc\<close> samples is appended after the bit (FSK1); if \<open>C mod fc\<close>
  is zero nothing is added and the counter stays. For \<open>bits\<close> successive bits of the same
  field clock, from an empty buffer, the sample count is
  \<open>wavesPerClock * fc * bits + extraWaves * fc\<close> with
  \<open>extraWaves = bits div (fc / (C mod fc))\<close> in the FSK2 case,
  \<open>wavesPerClock * fc * bits\<close> without modifier, and
  \<open>(wavesPerClock * fc + C mod fc) * bits\<close> in the FSK1 case. This is what
  \<^verbatim>\<open>CmdFSKsimTAG\<close> composes for a bitstream whose bits all select the same field clock.
\<close>

theorem fcAll_tie_break:
  fixes fc' clock :: u8 and dest :: bigbuf and n :: int and modCnt :: u16 and bits :: nat
  assumes "fc' \<noteq> 0"
  defines "r \<equiv> clock mod fc'"
    and "W \<equiv> uint (clock div fc')"
  shows
    "snd (fst (fcAll fc' clock ((dest, n), modCnt))) =
       n + W * uint fc'
       + (if r = 0 then 0
          else if fc' mod r = 0
          then (if uint (modCnt + 1) mod uint (fc' div r) = 0 then uint fc' else 0)
          else uint r)
     \<and> snd (fcAll fc' clock ((dest, n), modCnt)) = (if r = 0 then modCnt else modCnt + 1)
     \<and> (bits < 65536 \<longrightarrow>
          snd (fst ((fcAll fc' clock ^^ bits) ((dest, 0), 0))) =
            (if r = 0 then W * uint fc' * int bits
             else if fc' mod r = 0
             then W * uint fc' * int bits + int (bits div unat (fc' div r)) * uint fc'
             else (W * uint fc' + uint r) * int bits))
     \<and> ((\<forall>i < bits. BitStream i = ucast (drop_bit 8 arg2 AND 1))
          \<and> fc' = ucast (arg1 AND 0xFF) \<and> clock = ucast (arg2 AND 0xFF) \<longrightarrow>
          CmdFSKsimTAG_wave arg1 arg2 bits BitStream dest =
            (fcAll fc' clock ^^ bits) ((dest, 0), 0))"
proof -
  have total: "bits < 65536 \<longrightarrow>
          snd (fst ((fcAll fc' clock ^^ bits) ((dest, 0), 0))) =
            (if r = 0 then W * uint fc' * int bits
             else if fc' mod r = 0
             then W * uint fc' * int bits + int (bits div unat (fc' div r)) * uint fc'
             else (W * uint fc' + uint r) * int bits)"
    unfolding r_def W_def
    using fcAll_run_no_modifier [of clock fc' bits "((dest, 0), 0)"]
      fcAll_run_fsk1 [of clock fc' bits "((dest, 0), 0)"]
      fcAll_run_fsk2 [of clock fc' bits "(dest, 0)"]
    by simp
  have cmd: "(\<forall>i < bits. BitStream i = ucast (drop_bit 8 arg2 AND 1))
          \<and> fc' = ucast (arg1 AND 0xFF) \<and> clock = ucast (arg2 AND 0xFF) \<longrightarrow>
          CmdFSKsimTAG_wave arg1 arg2 bits BitStream dest =
            (fcAll fc' clock ^^ bits) ((dest, 0), 0)"
    using CmdFSKsimTAG_wave_uniform [of bits BitStream arg2 arg1 dest] by blast
  show ?thesis
    using total cmd
    by (simp only: fcAll_cursor fcAll_modCnt r_def W_def snd_conv)
qed

theorem fcAll_tie_break_witness:
  "(8 :: u8) \<noteq> 0 \<and> (4 :: nat) < 65536
   \<and> snd (fst (fcAll 8 50 ((\<lambda>i. 0, 144), 3))) = 144 + 6 * 8 + 8
   \<and> snd (fcAll 8 50 ((\<lambda>i. 0, 144), 3)) = 4
   \<and> snd (fst ((fcAll 8 50 ^^ 4) ((\<lambda>i. 0, 0), 0))) = 6 * 8 * 4 + 1 * 8
   \<and> snd (fst ((fcAll 8 40 ^^ 4) ((\<lambda>i. 0, 0), 0))) = 5 * 8 * 4
   \<and> snd (fst ((fcAll 8 51 ^^ 4) ((\<lambda>i. 0, 0), 0))) = (6 * 8 + 3) * 4
   \<and> CmdFSKsimTAG_wave 0x0A08 0x0032 4 (\<lambda>i. 0) (\<lambda>i. 0) =
       (fcAll 8 50 ^^ 4) ((\<lambda>i. 0, 0), 0)"
  using
    fcAll_tie_break [where fc' = 8 and clock = 50 and bits = 4 and dest = "\<lambda>i. 0"
      and n = 144 and modCnt = 3 and BitStream = "\<lambda>i. 0"
      and ?arg1.0 = "0x0A08" and ?arg2.0 = "0x0032"]
    fcAll_tie_break [where fc' = 8 and clock = 40 and bits = 4 and dest = "\<lambda>i. 0"]
    fcAll_tie_break [where fc' = 8 and clock = 51 and bits = 4 and dest = "\<lambda>i. 0"]
  by simp

subsection \<open>EM4x05 data framing\<close>

lemma upt8: "[0..<8] = [0, 1, 2, 3, 4, 5, 6, 7 :: nat]" by code_simp
lemma upt4: "[0..<4] = [0, 1, 2, 3 :: nat]" by code_simp

lemma cpq: "((((((((cp XOR ucast (push_bit 0 (data AND 1))) XOR ucast (push_bit 1 (drop_bit 1 data AND 1))) XOR ucast (push_bit 2 (drop_bit 2 data AND 1))) XOR ucast (push_bit 3 (drop_bit 3 data AND 1))) XOR ucast (push_bit 4 (drop_bit 4 data AND 1))) XOR ucast (push_bit 5 (drop_bit 5 data AND 1))) XOR ucast (push_bit 6 (drop_bit 6 data AND 1))) XOR ucast (push_bit 7 (drop_bit 7 data AND 1))) = cp XOR (ucast data :: u8)"
  for data :: u16
proof (rule bit_word_eqI)
  fix n :: nat
  assume "n < LENGTH(8)"
  then consider "n = 0" | "n = 1" | "n = 2" | "n = 3" | "n = 4" | "n = 5" | "n = 6" | "n = 7"
    by fastforce
  then show "bit (((((((((cp XOR ucast (push_bit 0 (data AND 1))) XOR ucast (push_bit 1 (drop_bit 1 data AND 1))) XOR ucast (push_bit 2 (drop_bit 2 data AND 1))) XOR ucast (push_bit 3 (drop_bit 3 data AND 1))) XOR ucast (push_bit 4 (drop_bit 4 data AND 1))) XOR ucast (push_bit 5 (drop_bit 5 data AND 1))) XOR ucast (push_bit 6 (drop_bit 6 data AND 1))) XOR ucast (push_bit 7 (drop_bit 7 data AND 1)))) n = bit (cp XOR (ucast data :: u8)) n"
    by cases (simp_all add: bit_simps del: push_bit_Suc)
qed

lemma fwd_write_Nil: "fwd_write [] f = f"
  by (simp add: fwd_write_def)

lemma fwd_write_Cons: "fwd_write (x # xs) (d, p) = fwd_write xs (d(p := x), Suc p)"
  by (simp add: fwd_write_def fwd_put_def)

lemma fwd_put_write: "fwd_put v (fwd_write xs f) = fwd_write (xs @ [v]) f"
  by (simp add: fwd_write_def)

lemma fwd_write_write: "fwd_write ys (fwd_write xs f) = fwd_write (xs @ ys) f"
  by (simp add: fwd_write_def)

lemma fwd_write_cursor: "snd (fwd_write xs (d, p)) = p + length xs"
  by (induction xs arbitrary: d p) (simp_all add: fwd_write_Nil fwd_write_Cons)

lemma fwd_write_below: "k < p \<Longrightarrow> fst (fwd_write xs (d, p)) k = d k"
  by (induction xs arbitrary: d p) (simp_all add: fwd_write_Nil fwd_write_Cons)

lemma fwd_write_read: "k < length xs \<Longrightarrow> fst (fwd_write xs (d, p)) (p + k) = xs ! k"
proof (induction xs arbitrary: d p k)
  case Nil
  then show ?case by simp
next
  case (Cons x xs)
  show ?case
  proof (cases k)
    case 0
    have "fst (fwd_write xs (d(p := x), Suc p)) p = (d(p := x)) p"
      by (rule fwd_write_below) simp
    then show ?thesis
      by (simp add: 0 fwd_write_Cons)
  next
    case (Suc k')
    have "fst (fwd_write xs (d(p := x), Suc p)) (Suc p + k') = xs ! k'"
      using Cons.prems Suc by (intro Cons.IH) simp
    then show ?thesis
      by (simp add: Suc fwd_write_Cons)
  qed
qed

lemma Prepare_Data_bit_write:
  "Prepare_Data_bit j (fwd_write xs f, lp, cp, data) =
     (fwd_write (xs @ [ucast data]) f, lp XOR ucast data,
      cp XOR ucast (push_bit j (data AND 1)), drop_bit 1 data)"
  by (simp add: Prepare_Data_bit_def Let_def fwd_put_write)

lemma drop_bit_steps:
  "drop_bit 1 (drop_bit 1 x) = drop_bit 2 x" "drop_bit 1 (drop_bit 2 x) = drop_bit 3 x"
  "drop_bit 1 (drop_bit 3 x) = drop_bit 4 x" "drop_bit 1 (drop_bit 4 x) = drop_bit 5 x"
  "drop_bit 1 (drop_bit 5 x) = drop_bit 6 x" "drop_bit 1 (drop_bit 6 x) = drop_bit 7 x"
  "drop_bit 1 (drop_bit 7 x) = drop_bit 8 x"
  for x :: "'a::len word"
  by (simp_all add: drop_bit_drop_bit eval_nat_numeral)

lemma row_fold:
  "fold Prepare_Data_bit [0..<8] (fwd_write xs f, 0, cp, data) =
    (fwd_write (xs @ row_bytes data) f, row_parity data, cp XOR ucast data, drop_bit 8 data)"
  unfolding upt8 row_bytes_def row_parity_def
  by (simp only: fold_simps o_apply Prepare_Data_bit_write append_assoc append.simps
        drop_bit_steps flip: cpq [of cp data])

lemma Prepare_Data_row_write:
  "Prepare_Data_row data_hi i (fwd_write xs f, cp, data) =
     (fwd_write (xs @ row_bytes data @ [row_parity data]) f, cp XOR ucast data,
      if i = 1 then data_hi else drop_bit 8 data)"
  by (simp add: Prepare_Data_row_def row_fold fwd_put_write)

lemma column_fold:
  "fold (\<lambda>j (f, column_parity). (fwd_put column_parity f, drop_bit 1 column_parity))
        [0..<8] (fwd_write xs f, cp) =
     (fwd_write (xs @ column_bytes cp) f, drop_bit 8 cp)"
  unfolding upt8 column_bytes_def
  by (simp only: fold_simps o_apply prod.case fwd_put_write append_assoc append.simps
        drop_bit_steps)

lemma Prepare_Data_write:
  "Prepare_Data data_low data_hi f =
     (case fwd_write (Prepare_Data_bytes data_low data_hi) f of
        (forwardLink_data, forward_ptr) \<Rightarrow>
          ((forwardLink_data(forward_ptr := 0), forward_ptr), 45))"
proof -
  have rows: "fold (Prepare_Data_row data_hi) [0..<4] (fwd_write [] f, 0, data_low) =
      (fwd_write (row_bytes data_low @ [row_parity data_low]
                  @ row_bytes (drop_bit 8 data_low) @ [row_parity (drop_bit 8 data_low)]
                  @ row_bytes data_hi @ [row_parity data_hi]
                  @ row_bytes (drop_bit 8 data_hi) @ [row_parity (drop_bit 8 data_hi)]) f,
       ((ucast data_low XOR ucast (drop_bit 8 data_low))
         XOR ucast data_hi) XOR ucast (drop_bit 8 data_hi),
       drop_bit 8 (drop_bit 8 data_hi))"
    unfolding upt4
    by (simp only: fold_simps o_apply Prepare_Data_row_write append_assoc append.simps)
       simp
  show ?thesis
    by (simp only: Prepare_Data_def Prepare_Data_bytes_def rows [unfolded fwd_write_Nil]
          Let_def prod.case column_fold append_assoc append.simps)
qed


lemma fwd_bit_iff: "fwd_bit d k = bit (d k) 0"
  by (simp add: fwd_bit_def and_one_eq bit_0 mod_2_eq_odd)

lemma length_Prepare_Data_bytes: "length (Prepare_Data_bytes lo hi) = 44"
  by (simp add: Prepare_Data_bytes_def row_bytes_def column_bytes_def)

lemma frame_bits:
  "map (\<lambda>b. bit b 0) (Prepare_Data_bytes (ucast (Data AND 0xFFFF)) (ucast (drop_bit 16 Data)))
     = data_frame Data"
  unfolding Prepare_Data_bytes_def row_bytes_def row_parity_def column_bytes_def data_frame_def
    upt4 upt8 xor_bits_def Let_def
  by (simp add: bit_simps flip: numeral_2_eq_2)

lemma Prepare_Data_read:
  assumes "k < 44"
  shows "fst (fst (Prepare_Data lo hi (d, p))) (p + k) = Prepare_Data_bytes lo hi ! k"
proof -
  obtain d' p' where w: "fwd_write (Prepare_Data_bytes lo hi) (d, p) = (d', p')"
    by (cases "fwd_write (Prepare_Data_bytes lo hi) (d, p)")
  have p': "p' = p + 44"
    using fwd_write_cursor [of "Prepare_Data_bytes lo hi" d p] w
    by (simp add: length_Prepare_Data_bytes)
  have "d' (p + k) = Prepare_Data_bytes lo hi ! k"
    using fwd_write_read [of k "Prepare_Data_bytes lo hi" d p] w assms
    by (simp add: length_Prepare_Data_bytes)
  then show ?thesis
    using assms by (simp add: Prepare_Data_write w p')
qed

lemma Prepare_Data_end:
  "fst (fst (Prepare_Data lo hi (d, p))) (p + 44) = 0"
  "snd (fst (Prepare_Data lo hi (d, p))) = p + 44"
  "snd (Prepare_Data lo hi (d, p)) = 45"
  using fwd_write_cursor [of "Prepare_Data_bytes lo hi" d p]
  by (auto simp add: Prepare_Data_write length_Prepare_Data_bytes split: prod.splits)

lemma Prepare_Data_frame_bits:
  "map (\<lambda>k. fwd_bit (fst (fst (Prepare_Data (ucast (Data AND 0xFFFF)) (ucast (drop_bit 16 Data))
          (d, p)))) (p + k)) [0..<44] = data_frame Data"
proof -
  let ?L = "Prepare_Data_bytes (ucast (Data AND 0xFFFF)) (ucast (drop_bit 16 Data))"
  have "map (\<lambda>k. fwd_bit (fst (fst (Prepare_Data (ucast (Data AND 0xFFFF))
          (ucast (drop_bit 16 Data)) (d, p)))) (p + k)) [0..<44] =
        map (\<lambda>k. bit (?L ! k) 0) [0..<length ?L]"
    by (simp add: fwd_bit_iff Prepare_Data_read length_Prepare_Data_bytes)
  also have "\<dots> = map (\<lambda>b. bit b 0) (map (\<lambda>k. ?L ! k) [0..<length ?L])"
    by simp
  also have "\<dots> = map (\<lambda>b. bit b 0) ?L"
    by (simp only: map_nth)
  finally show ?thesis
    by (simp only: frame_bits)
qed

lemma data_frame_zero: "data_frame 0 = replicate 44 False"
  unfolding data_frame_def upt4 upt8 xor_bits_def Let_def
  by (simp add: numeral_eq_Suc)

lemma data_frame_ones:
  "data_frame 0xFFFFFFFF = concat (replicate 4 (replicate 8 True @ [False])) @ replicate 8 False"
  unfolding data_frame_def upt4 upt8 xor_bits_def Let_def
  by (simp add: numeral_eq_Suc bit_simps)

text \<open>
  Claim C4, as stated, fails in its last example: for the data word \<^verbatim>\<open>0xFFFFFFFF\<close> the
  four row-parity bits (entries 8, 17, 26 and 35 of the frame) are 0, not 1, since each is
  the XOR of eight ones.
\<close>

theorem Prepare_Data_row_parity_counterexample:
  "map (fwd_bit (fst (fst (Prepare_Data 0xFFFF 0xFFFF (\<lambda>k. 0, 0))))) [8, 17, 26, 35] =
     [False, False, False, False]"
  using Prepare_Data_read [of 8 "0xFFFF" "0xFFFF" "\<lambda>k. 0" 0]
    Prepare_Data_read [of 17 "0xFFFF" "0xFFFF" "\<lambda>k. 0" 0]
    Prepare_Data_read [of 26 "0xFFFF" "0xFFFF" "\<lambda>k. 0" 0]
    Prepare_Data_read [of 35 "0xFFFF" "0xFFFF" "\<lambda>k. 0" 0]
  by (simp add: fwd_bit_iff Prepare_Data_bytes_def row_bytes_def row_parity_def
      column_bytes_def)

text \<open>
  Claim C4, amended: for every 32-bit data word framed by \<^verbatim>\<open>Prepare_Data\<close> (called with
  its low and high halves), the 44 bits stored from the cursor on are the four 8-bit rows,
  each immediately followed by a row-parity bit equal to the XOR of its 8 row bits, then
  the 8 column-parity bits, where column parity \<open>j\<close> is the XOR of bit \<open>j\<close> across the 4
  rows; a zero entry closes the frame and the routine returns 45. In particular the
  data word 0 yields 0 for every bit, and \<^verbatim>\<open>0xFFFFFFFF\<close> yields all four row parities 0
  (an even number of ones in each row) and all eight column parities 0.
\<close>

theorem Prepare_Data_parity_frame:
  "map (\<lambda>k. fwd_bit (fst (fst (Prepare_Data (ucast (Data AND 0xFFFF)) (ucast (drop_bit 16 Data))
          (d, p)))) (p + k)) [0..<44] = data_frame Data
   \<and> fst (fst (Prepare_Data (ucast (Data AND 0xFFFF)) (ucast (drop_bit 16 Data)) (d, p))) (p + 44)
       = 0
   \<and> snd (fst (Prepare_Data (ucast (Data AND 0xFFFF)) (ucast (drop_bit 16 Data)) (d, p))) = p + 44
   \<and> snd (Prepare_Data (ucast (Data AND 0xFFFF)) (ucast (drop_bit 16 Data)) (d, p)) = 45
   \<and> data_frame 0 = replicate 44 False
   \<and> data_frame 0xFFFFFFFF =
       concat (replicate 4 (replicate 8 True @ [False])) @ replicate 8 False"
  by (simp only: Prepare_Data_frame_bits Prepare_Data_end data_frame_zero data_frame_ones
      simp_thms)

end
